theory Spec2Isabelle
  imports Complex_Main
begin

section \<open>Shared types (types.ts)\<close>

text \<open>
  \<^verbatim>\<open>export type ImageSize = '1K' | '2K' | '4K';\<close>
  The three string literals are the constructors \<open>Size_1K\<close>, \<open>Size_2K\<close>, \<open>Size_4K\<close>.
\<close>

datatype ImageSize = Size_1K | Size_2K | Size_4K

text \<open>
  \<^verbatim>\<open>step: 'idle' | 'recording' | 'analyzing' | 'generating_image' | 'complete'\<close>
\<close>

datatype step = idle | recording | analyzing | generating_image | complete

text \<open>
  A value produced by \<^verbatim>\<open>JSON.parse\<close>. The TypeScript cast \<^verbatim>\<open>as DreamAnalysis\<close> does
  nothing at run time, so the value that reaches the application state is whatever the
  parser returned: \<open>JNull\<close> is JavaScript's \<^verbatim>\<open>null\<close>, an object is its list of
  properties in insertion order.
\<close>

datatype json =
    JNull
  | JBool bool
  | JNumber real
  | JString string
  | JArray "json list"
  | JObject "(string \<times> json) list"

text \<open>
  Values that the code throws or that reject a promise. \<open>Error\<close>, \<open>SyntaxError\<close> and
  \<open>TypeError\<close> carry their \<^verbatim>\<open>message\<close>; \<open>ProgressEvent\<close> is what \<^verbatim>\<open>reader.onerror = reject\<close>
  in \<^verbatim>\<open>blobToBase64\<close> rejects with, an event object that has no \<^verbatim>\<open>message\<close> property.
\<close>

datatype js_error =
    Error string
  | SyntaxError string
  | TypeError string
  | ProgressEvent

fun message :: "js_error \<Rightarrow> string option" where
  "message (Error m) = Some m"
| "message (SyntaxError m) = Some m"
| "message (TypeError m) = Some m"
| "message ProgressEvent = None"

text \<open>A \<^verbatim>\<open>Blob\<close>: its bytes and its MIME type.\<close>

record Blob =
  blob_data :: string
  blob_type :: string

text \<open>
  \<^verbatim>\<open>interface DreamAnalysis { transcription; interpretation; visualPrompt; emotionalTheme }\<close>,
  all four of type \<^verbatim>\<open>string\<close>. Reading a property of a parsed value: \<^verbatim>\<open>null.p\<close> throws a
  TypeError, an object gives the property or \<^verbatim>\<open>undefined\<close> (\<open>None\<close>), every other JSON
  value has no such property.
\<close>

fun property :: "json \<Rightarrow> string \<Rightarrow> js_error + json option" where
  "property JNull p = Inl (TypeError ''Cannot read properties of null'')"
| "property (JObject kvs) p = Inr (map_of kvs p)"
| "property v p = Inr None"

text \<open>
  The shape that the interface \<^verbatim>\<open>DreamAnalysis\<close> and the request's \<^verbatim>\<open>responseSchema\<close>
  describe: an object whose four required properties are strings.
\<close>

definition is_DreamAnalysis :: "json \<Rightarrow> bool" where
  "is_DreamAnalysis v =
     (case v of
        JObject kvs \<Rightarrow>
          list_all (\<lambda>p. case map_of kvs p of Some (JString s) \<Rightarrow> True | _ \<Rightarrow> False)
            [''transcription'', ''interpretation'', ''visualPrompt'', ''emotionalTheme'']
      | _ \<Rightarrow> False)"

section \<open>services/geminiService.ts\<close>

text \<open>
  The response of \<^verbatim>\<open>ai.models.generateContent\<close> and of \<^verbatim>\<open>chat.sendMessage\<close> as far as the
  code reads it: \<^verbatim>\<open>response.text\<close>, which is a string or \<^verbatim>\<open>undefined\<close>.
\<close>

record text_response =
  response_text :: "string option"

text \<open>
  \<^verbatim>\<open>
  const text = response.text;
  if (!text) throw new Error("No response from Gemini");
  return JSON.parse(text) as DreamAnalysis;
  \<close>
  The function is given the settled result of the awaited external call (\<open>Inl\<close> when
  \<^verbatim>\<open>blobToBase64\<close> or \<^verbatim>\<open>generateContent\<close> rejected: nothing catches it here). \<^verbatim>\<open>JSON.parse\<close>
  belongs to the platform and is a parameter. \<^verbatim>\<open>!text\<close> holds for \<^verbatim>\<open>undefined\<close> and for the
  empty string.
\<close>

definition analyzeDreamAudio ::
  "(string \<Rightarrow> js_error + json) \<Rightarrow> js_error + text_response \<Rightarrow> js_error + json" where
  "analyzeDreamAudio JSON_parse settled =
     (case settled of
        Inl e \<Rightarrow> Inl e
      | Inr response \<Rightarrow>
          (case response_text response of
             None \<Rightarrow> Inl (Error ''No response from Gemini'')
           | Some text \<Rightarrow>
               if text = [] then Inl (Error ''No response from Gemini'')
               else JSON_parse text))"

text \<open>
  A finite excerpt of the graph of \<^verbatim>\<open>JSON.parse\<close>, for evaluating the code at concrete
  texts: on the three listed texts it returns what \<^verbatim>\<open>JSON.parse\<close> returns there; the text
  \<^verbatim>\<open>not json\<close> and everything else outside the excerpt is answered as a text that does not
  parse.
\<close>

definition JSON_parse_excerpt :: "string \<Rightarrow> js_error + json" where
  "JSON_parse_excerpt text =
     (if text = ''{\"transcription\":\"t\",\"interpretation\":\"i\",\"visualPrompt\":\"v\",\"emotionalTheme\":\"e\"}''
      then Inr (JObject [(''transcription'', JString ''t''), (''interpretation'', JString ''i''),
                         (''visualPrompt'', JString ''v''), (''emotionalTheme'', JString ''e'')])
      else if text = ''{\"transcription\":\"t\"}''
      then Inr (JObject [(''transcription'', JString ''t'')])
      else if text = ''null'' then Inr JNull
      else Inl (SyntaxError ''Unexpected token''))"

text \<open>
  The inline payload of a content part, the part, and the response of the image model as
  far as \<^verbatim>\<open>response.candidates?.[0]?.content?.parts\<close> reads it. Every optional property is
  an \<open>option\<close>.
\<close>

record inlineData =
  data :: "string option"
  mimeType :: "string option"

record part =
  part_text :: "string option"
  part_inlineData :: "inlineData option"

record content =
  parts :: "part list option"

record candidate =
  candidate_content :: "content option"

record image_response =
  candidates :: "candidate list option"

text \<open>\<^verbatim>\<open>response.candidates?.[0]?.content?.parts || []\<close>\<close>

definition response_parts :: "image_response \<Rightarrow> part list" where
  "response_parts response =
     (case candidates response of
        None \<Rightarrow> []
      | Some cs \<Rightarrow>
          (case cs of
             [] \<Rightarrow> []
           | c # _ \<Rightarrow>
               (case candidate_content c of
                  None \<Rightarrow> []
                | Some ct \<Rightarrow> (case parts ct of None \<Rightarrow> [] | Some ps \<Rightarrow> ps))))"

text \<open>
  \<^verbatim>\<open>
  for (const part of ... || []) {
    if (part.inlineData) {
      return `data:image/png;base64,${part.inlineData.data}`;
    }
  }
  throw new Error("No image generated");
  \<close>
  A template literal renders an \<^verbatim>\<open>undefined\<close> payload as the text \<^verbatim>\<open>undefined\<close>.
\<close>

fun scan_parts :: "part list \<Rightarrow> js_error + string" where
  "scan_parts [] = Inl (Error ''No image generated'')"
| "scan_parts (p # ps) =
     (case part_inlineData p of
        Some d \<Rightarrow>
          Inr (''data:image/png;base64,'' @
                 (case data d of None \<Rightarrow> ''undefined'' | Some payload \<Rightarrow> payload))
      | None \<Rightarrow> scan_parts ps)"

text \<open>
  The parts of every candidate of a response, in order: what \<^emph>\<open>an inline part is present
  in the response\<close> ranges over, as opposed to \<open>response_parts\<close>, which is what the code
  scans.
\<close>

definition parts_of_every_candidate :: "image_response \<Rightarrow> part list" where
  "parts_of_every_candidate response =
     (case candidates response of
        None \<Rightarrow> []
      | Some cs \<Rightarrow>
          concat (map (\<lambda>c. case candidate_content c of
                                None \<Rightarrow> []
                              | Some ct \<Rightarrow> (case parts ct of None \<Rightarrow> [] | Some ps \<Rightarrow> ps)) cs))"

text \<open>
  The request that the live \<^verbatim>\<open>generateDreamImage(prompt, size)\<close> sends, and the function
  itself on the settled result of the awaited call. The prompt is the value of
  \<^verbatim>\<open>analysis.visualPrompt\<close>, which is \<^verbatim>\<open>undefined\<close> when the parsed value has no such property.
\<close>

record image_request =
  request_model :: string
  request_prompt :: "json option"
  request_aspectRatio :: string
  request_imageSize :: ImageSize

definition generateDreamImage_request :: "json option \<Rightarrow> ImageSize \<Rightarrow> image_request" where
  "generateDreamImage_request prompt size' =
     \<lparr>request_model = ''gemini-3-pro-image-preview'', request_prompt = prompt,
      request_aspectRatio = ''1:1'', request_imageSize = size'\<rparr>"

definition generateDreamImage :: "js_error + image_response \<Rightarrow> js_error + string" where
  "generateDreamImage settled =
     (case settled of
        Inl e \<Rightarrow> Inl e
      | Inr response \<Rightarrow> scan_parts (response_parts response))"

text \<open>
  The other revision of the service ignores both arguments and returns a fixed address
  after a delay.
\<close>

definition generateDreamImage_stub :: "json option \<Rightarrow> ImageSize \<Rightarrow> js_error + string" where
  "generateDreamImage_stub prompt size' =
     Inr ''https://images.unsplash.com/photo-1483096954271-6785055b863d?q=80&w=2070&auto=format&fit=crop''"

text \<open>
  \<^verbatim>\<open>
  async sendMessage(message: string): Promise<string> {
    const response = await this.chat.sendMessage({ message });
    return response.text || "I couldn't generate a response.";
  }
  \<close>
  A session is the handle created from its system instruction; the conversation itself
  is kept by the service.
\<close>

record DreamChatSession =
  systemInstruction :: string

definition sendMessage :: "js_error + text_response \<Rightarrow> js_error + string" where
  "sendMessage settled =
     (case settled of
        Inl e \<Rightarrow> Inl e
      | Inr response \<Rightarrow>
          (case response_text response of
             None \<Rightarrow> Inr ''I couldn't generate a response.''
           | Some text \<Rightarrow>
               if text = [] then Inr ''I couldn't generate a response.'' else Inr text))"

section \<open>App.tsx\<close>

text \<open>
  \<^verbatim>\<open>interface DreamState\<close> of types.ts. \<open>None\<close> is \<^verbatim>\<open>null\<close>; the field \<open>analysis\<close> holds the
  parsed value itself, so it is \<^verbatim>\<open>null\<close> exactly when it is \<open>JNull\<close>.
\<close>

record DreamState =
  audioBlob :: "Blob option"
  analysis :: json
  imageUrl :: "string option"
  imageSize :: ImageSize
  isProcessing :: bool
  isRecording :: bool
  step :: step
  error :: "string option"

text \<open>The argument of \<^verbatim>\<open>useState<DreamState>\<close>.\<close>

definition initial_state :: DreamState where
  "initial_state =
     \<lparr>audioBlob = None, analysis = JNull, imageUrl = None, imageSize = Size_1K,
      isProcessing = False, isRecording = False, step = idle, error = None\<rparr>"

text \<open>
  \<^verbatim>\<open>handleRecordingComplete\<close> is an async function with two awaits. Each of its four
  \<^verbatim>\<open>setState(prev => ...)\<close> calls is an updater of the state current at that moment:
  the one before the first await, the one after the analysis, the one after the image,
  and the one of the \<^verbatim>\<open>catch\<close> block.
\<close>

definition recording_received :: "Blob \<Rightarrow> DreamState \<Rightarrow> DreamState" where
  "recording_received blob prev =
     prev\<lparr>audioBlob := Some blob, step := analyzing, isProcessing := True, error := None\<rparr>"

definition analysis_received :: "json \<Rightarrow> DreamState \<Rightarrow> DreamState" where
  "analysis_received a prev = prev\<lparr>analysis := a, step := generating_image\<rparr>"

definition image_received :: "string \<Rightarrow> DreamState \<Rightarrow> DreamState" where
  "image_received url prev =
     prev\<lparr>imageUrl := Some url, isProcessing := False, step := complete\<rparr>"

text \<open>\<^verbatim>\<open>error.message || "Failed to process dream. Please try again."\<close>\<close>

definition error_text :: "js_error \<Rightarrow> string" where
  "error_text e =
     (case message e of
        None \<Rightarrow> ''Failed to process dream. Please try again.''
      | Some m \<Rightarrow> if m = [] then ''Failed to process dream. Please try again.'' else m)"

definition processing_failed :: "js_error \<Rightarrow> DreamState \<Rightarrow> DreamState" where
  "processing_failed e prev =
     prev\<lparr>isProcessing := False, step := idle, error := Some (error_text e)\<rparr>"

text \<open>
  \<^verbatim>\<open>reset\<close> and \<^verbatim>\<open>setImageSize\<close>. \<^verbatim>\<open>reset\<close> reads \<^verbatim>\<open>state.imageSize\<close> of the render it was
  created in, which is its argument here.
\<close>

definition reset :: "DreamState \<Rightarrow> DreamState" where
  "reset state =
     \<lparr>audioBlob = None, analysis = JNull, imageUrl = None, imageSize = imageSize state,
      isProcessing = False, isRecording = False, step = idle, error = None\<rparr>"

definition setImageSize :: "ImageSize \<Rightarrow> DreamState \<Rightarrow> DreamState" where
  "setImageSize size' prev = prev\<lparr>imageSize := size'\<rparr>"

text \<open>
  A call of \<^verbatim>\<open>handleRecordingComplete\<close> that has not finished is suspended at one of its two
  awaits. It keeps the \<^verbatim>\<open>state\<close> object of the render that created the function (only
  \<^verbatim>\<open>state.imageSize\<close> is read from it), and at the second await the two arguments it gave
  to \<^verbatim>\<open>generateDreamImage\<close>.
\<close>

datatype handler_call =
    Awaiting_analysis DreamState
  | Awaiting_image "json option" ImageSize
  | Finished

record App =
  state :: DreamState
  calls :: "handler_call list"

definition initial_App :: App where
  "initial_App = \<lparr>state = initial_state, calls = []\<rparr>"

text \<open>
  The function up to \<^verbatim>\<open>await analyzeDreamAudio(blob)\<close>. \<open>closure\<close> is the \<^verbatim>\<open>state\<close> that this
  instance of the function closes over.
\<close>

definition handleRecordingComplete :: "DreamState \<Rightarrow> Blob \<Rightarrow> App \<Rightarrow> App" where
  "handleRecordingComplete closure blob app =
     app\<lparr>state := recording_received blob (state app),
         calls := calls app @ [Awaiting_analysis closure]\<rparr>"

text \<open>
  From the first await to the second: the promise of \<^verbatim>\<open>analyzeDreamAudio\<close> settles for
  call number \<open>i\<close>. A rejection goes to the \<^verbatim>\<open>catch\<close> block; so does the TypeError of
  \<^verbatim>\<open>analysis.visualPrompt\<close> on \<^verbatim>\<open>null\<close>, after the updater that stored the analysis.
\<close>

definition analysis_settled :: "nat \<Rightarrow> js_error + json \<Rightarrow> App \<Rightarrow> App" where
  "analysis_settled i result app =
     (if i < length (calls app) then
        (case calls app ! i of
           Awaiting_analysis closure \<Rightarrow>
             (case result of
                Inl e \<Rightarrow>
                  app\<lparr>state := processing_failed e (state app),
                      calls := (calls app)[i := Finished]\<rparr>
              | Inr a \<Rightarrow>
                  (case property a ''visualPrompt'' of
                     Inl e \<Rightarrow>
                       app\<lparr>state := processing_failed e (analysis_received a (state app)),
                           calls := (calls app)[i := Finished]\<rparr>
                   | Inr prompt \<Rightarrow>
                       app\<lparr>state := analysis_received a (state app),
                           calls := (calls app)[i := Awaiting_image prompt (imageSize closure)]\<rparr>))
         | _ \<Rightarrow> app)
      else app)"

text \<open>From the second await to the end: the promise of \<^verbatim>\<open>generateDreamImage\<close> settles.\<close>

definition image_settled :: "nat \<Rightarrow> js_error + string \<Rightarrow> App \<Rightarrow> App" where
  "image_settled i result app =
     (if i < length (calls app) then
        (case calls app ! i of
           Awaiting_image prompt size' \<Rightarrow>
             (case result of
                Inl e \<Rightarrow>
                  app\<lparr>state := processing_failed e (state app),
                      calls := (calls app)[i := Finished]\<rparr>
              | Inr url \<Rightarrow>
                  app\<lparr>state := image_received url (state app),
                      calls := (calls app)[i := Finished]\<rparr>)
         | _ \<Rightarrow> app)
      else app)"

text \<open>
  What can happen to the component: a recorder calls \<^verbatim>\<open>onRecordingComplete\<close> (an instance
  of \<^verbatim>\<open>handleRecordingComplete\<close> with its closure), a pending promise settles, the header
  is clicked (\<^verbatim>\<open>onClick={reset}\<close>, rendered at every step), a resolution is chosen.
\<close>

datatype app_event =
    Recording_complete DreamState Blob
  | Analysis_settled nat "js_error + json"
  | Image_settled nat "js_error + string"
  | Reset
  | Set_image_size ImageSize

fun app_step :: "App \<Rightarrow> app_event \<Rightarrow> App" where
  "app_step app (Recording_complete closure blob) = handleRecordingComplete closure blob app"
| "app_step app (Analysis_settled i result) = analysis_settled i result app"
| "app_step app (Image_settled i result) = image_settled i result app"
| "app_step app Reset = app\<lparr>state := reset (state app)\<rparr>"
| "app_step app (Set_image_size size') = app\<lparr>state := setImageSize size' (state app)\<rparr>"

definition run :: "app_event list \<Rightarrow> App" where
  "run evs = foldl app_step initial_App evs"

text \<open>Whether every analysis that the events deliver is a non-null value.\<close>

fun delivers_null :: "app_event \<Rightarrow> bool" where
  "delivers_null (Analysis_settled i (Inr a)) = (a = JNull)"
| "delivers_null ev = False"

text \<open>
  Two properties that every transition keeps: at step \<open>complete\<close> there is an image
  reference, and at step \<open>generating_image\<close> the analysis is the parsed value, which is
  null only when the parser returned null.
\<close>

definition complete_has_image :: "DreamState \<Rightarrow> bool" where
  "complete_has_image s = (step s = complete \<longrightarrow> imageUrl s \<noteq> None)"

definition generating_has_analysis :: "DreamState \<Rightarrow> bool" where
  "generating_has_analysis s = (step s = generating_image \<longrightarrow> analysis s \<noteq> JNull)"

section \<open>components/AudioRecorder.tsx\<close>

text \<open>
  The component exists in two revisions. This section follows the file
  components/AudioRecorder.tsx. The later revision checks for a secure context and for
  \<^verbatim>\<open>navigator.mediaDevices\<close> before it asks for the microphone, calls \<^verbatim>\<open>stopVisualizer\<close> and
  sets a permission flag in the \<^verbatim>\<open>catch\<close> block of \<^verbatim>\<open>startRecording\<close>, and clears
  \<^verbatim>\<open>audioContextRef\<close> after closing the context; its \<^verbatim>\<open>onstop\<close>, \<^verbatim>\<open>ondataavailable\<close>,
  \<^verbatim>\<open>stopRecording\<close> and \<^verbatim>\<open>draw\<close> and its buttons are the same, line for line.

  The browser objects that the component creates and keeps in closures. A
  \<^verbatim>\<open>MediaStreamTrack\<close> is \<^verbatim>\<open>live\<close> until \<^verbatim>\<open>track.stop()\<close> ends it. A \<^verbatim>\<open>MediaRecorder\<close> is
  recording or inactive; \<^verbatim>\<open>stop()\<close> makes it inactive and queues its \<^verbatim>\<open>stop\<close> event. The
  \<^verbatim>\<open>onstop\<close> handler that \<^verbatim>\<open>startRecording\<close> attaches to it closes over the \<^verbatim>\<open>stream\<close> of that
  call and over the \<^verbatim>\<open>onRecordingComplete\<close> prop of the render that created that
  \<^verbatim>\<open>startRecording\<close>; \<open>'cb\<close> is the type of that callback.
\<close>

datatype track_state = live | ended

record 'cb MediaRecorder =
  recording :: bool
  stop_queued :: bool
  stream :: "track_state list"
  onRecordingComplete :: 'cb

text \<open>A call of the async \<^verbatim>\<open>startRecording\<close> suspended at \<^verbatim>\<open>await getUserMedia\<close>.\<close>

datatype 'cb start_call = Awaiting_stream 'cb | Returned

datatype audio_context = running | closed

text \<open>
  The component: \<^verbatim>\<open>useState(false)\<close> for \<open>isRecording\<close>, the refs, and the part of the
  browser the refs point into. \<open>recorders\<close> is the store of the \<^verbatim>\<open>MediaRecorder\<close> objects
  created so far and \<open>mediaRecorderRef\<close> an index into it; \<open>scheduled_frames\<close> are the
  handles of the \<^verbatim>\<open>requestAnimationFrame\<close> callbacks not yet run or cancelled (handles are
  positive, \<open>last_frame_handle\<close> is the last one issued); \<open>start_calls\<close> are the calls of
  \<^verbatim>\<open>startRecording\<close> made so far. The recording timer and the pixels of the canvas are
  left out.
\<close>

record 'cb AudioRecorder =
  isRecording :: bool
  mediaRecorderRef :: "nat option"
  chunksRef :: "Blob list"
  animationFrameRef :: "nat option"
  audioContextRef :: "audio_context option"
  analyserRef :: bool
  recorders :: "'cb MediaRecorder list"
  scheduled_frames :: "nat list"
  last_frame_handle :: nat
  start_calls :: "'cb start_call list"

definition initial_AudioRecorder :: "'cb AudioRecorder" where
  "initial_AudioRecorder =
     \<lparr>isRecording = False, mediaRecorderRef = None, chunksRef = [], animationFrameRef = None,
      audioContextRef = None, analyserRef = False, recorders = [], scheduled_frames = [],
      last_frame_handle = 0, start_calls = []\<rparr>"

text \<open>
  \<^verbatim>\<open>
  const draw = () => {
    if (!analyserRef.current) return;
    animationFrameRef.current = requestAnimationFrame(draw);
    ...
  };
  \<close>
\<close>

definition draw :: "'cb AudioRecorder \<Rightarrow> 'cb AudioRecorder" where
  "draw r =
     (if \<not> analyserRef r then r
      else r\<lparr>animationFrameRef := Some (Suc (last_frame_handle r)),
             scheduled_frames := scheduled_frames r @ [Suc (last_frame_handle r)],
             last_frame_handle := Suc (last_frame_handle r)\<rparr>)"

text \<open>
  \<^verbatim>\<open>startVisualizer\<close>: returns at once without a canvas, creates the audio context and the
  analyser, returns without a 2d context, otherwise calls \<^verbatim>\<open>draw()\<close>. \<open>canvas\<close> says whether
  \<^verbatim>\<open>canvasRef.current\<close> is set and \<open>ctx\<close> whether \<^verbatim>\<open>getContext('2d')\<close> gave a context.
\<close>

definition startVisualizer :: "bool \<Rightarrow> bool \<Rightarrow> 'cb AudioRecorder \<Rightarrow> 'cb AudioRecorder" where
  "startVisualizer canvas ctx r =
     (if \<not> canvas then r
      else if \<not> ctx then r\<lparr>audioContextRef := Some running, analyserRef := True\<rparr>
      else draw (r\<lparr>audioContextRef := Some running, analyserRef := True\<rparr>))"

text \<open>
  \<^verbatim>\<open>
  const stopVisualizer = () => {
    if (animationFrameRef.current) { cancelAnimationFrame(animationFrameRef.current); }
    if (audioContextRef.current) { audioContextRef.current.close(); }
    ...
  };
  \<close>
  The handle \<open>0\<close> is falsy. \<^verbatim>\<open>cancelAnimationFrame\<close> removes that one handle.
\<close>

definition cancelAnimationFrame :: "nat \<Rightarrow> 'cb AudioRecorder \<Rightarrow> 'cb AudioRecorder" where
  "cancelAnimationFrame h r = r\<lparr>scheduled_frames := removeAll h (scheduled_frames r)\<rparr>"

definition stopVisualizer :: "'cb AudioRecorder \<Rightarrow> 'cb AudioRecorder" where
  "stopVisualizer r =
     (let r1 = (case animationFrameRef r of
                  None \<Rightarrow> r
                | Some h \<Rightarrow> if h = 0 then r else cancelAnimationFrame h r)
      in case audioContextRef r1 of
           None \<Rightarrow> r1
         | Some c \<Rightarrow> r1\<lparr>audioContextRef := Some closed\<rparr>)"

text \<open>
  \<^verbatim>\<open>startRecording\<close> up to \<^verbatim>\<open>await navigator.mediaDevices.getUserMedia({ audio: true })\<close>: the
  call is suspended and keeps the \<^verbatim>\<open>onRecordingComplete\<close> of its render.
\<close>

definition startRecording :: "'cb \<Rightarrow> 'cb AudioRecorder \<Rightarrow> 'cb AudioRecorder" where
  "startRecording onRecordingComplete_prop r =
     r\<lparr>start_calls := start_calls r @ [Awaiting_stream onRecordingComplete_prop]\<rparr>"

text \<open>
  The rest of the \<^verbatim>\<open>try\<close> block, once the promise of call \<open>i\<close> is fulfilled with a stream
  of live tracks: a new \<^verbatim>\<open>MediaRecorder\<close> goes into \<^verbatim>\<open>mediaRecorderRef\<close>, \<^verbatim>\<open>chunksRef\<close> is
  emptied, the recorder is started, the visualizer is started, \<^verbatim>\<open>setIsRecording(true)\<close>.
\<close>

definition stream_granted ::
  "nat \<Rightarrow> nat \<Rightarrow> bool \<Rightarrow> bool \<Rightarrow> 'cb AudioRecorder \<Rightarrow> 'cb AudioRecorder" where
  "stream_granted i n canvas ctx r =
     (if i < length (start_calls r) then
        (case start_calls r ! i of
           Awaiting_stream cb \<Rightarrow>
             (startVisualizer canvas ctx
                (r\<lparr>mediaRecorderRef := Some (length (recorders r)),
                   recorders := recorders r @
                     [\<lparr>recording = True, stop_queued = False, stream = replicate n live,
                       onRecordingComplete = cb\<rparr>],
                   chunksRef := [],
                   start_calls := (start_calls r)[i := Returned]\<rparr>))
             \<lparr>isRecording := True\<rparr>
         | Returned \<Rightarrow> r)
      else r)"

text \<open>
  The \<^verbatim>\<open>catch\<close> block, when the promise is rejected: a message is logged and an alert is
  shown; nothing of the component changes.
\<close>

definition stream_denied :: "nat \<Rightarrow> 'cb AudioRecorder \<Rightarrow> 'cb AudioRecorder" where
  "stream_denied i r =
     (if i < length (start_calls r) then
        (case start_calls r ! i of
           Awaiting_stream cb \<Rightarrow> r\<lparr>start_calls := (start_calls r)[i := Returned]\<rparr>
         | Returned \<Rightarrow> r)
      else r)"

text \<open>
  \<^verbatim>\<open>
  mediaRecorderRef.current.ondataavailable = (e) => {
    if (e.data.size > 0) { chunksRef.current.push(e.data); }
  };
  \<close>
\<close>

definition ondataavailable :: "Blob \<Rightarrow> 'cb AudioRecorder \<Rightarrow> 'cb AudioRecorder" where
  "ondataavailable e_data r =
     (if length (blob_data e_data) > 0 then r\<lparr>chunksRef := chunksRef r @ [e_data]\<rparr> else r)"

text \<open>\<^verbatim>\<open>new Blob(chunksRef.current, { type: 'audio/webm' })\<close> concatenates the chunks.\<close>

definition new_Blob :: "Blob list \<Rightarrow> string \<Rightarrow> Blob" where
  "new_Blob chunks type' = \<lparr>blob_data = concat (map blob_data chunks), blob_type = type'\<rparr>"

text \<open>\<^verbatim>\<open>stream.getTracks().forEach(track => track.stop())\<close> on the stream of recorder \<open>j\<close>.\<close>

definition stop_tracks :: "nat \<Rightarrow> 'cb AudioRecorder \<Rightarrow> 'cb AudioRecorder" where
  "stop_tracks j r =
     r\<lparr>recorders := (recorders r)[j := (recorders r ! j)\<lparr>stream := map (\<lambda>track. ended) (stream (recorders r ! j))\<rparr>]\<rparr>"

text \<open>
  \<^verbatim>\<open>
  mediaRecorderRef.current.onstop = () => {
    const blob = new Blob(chunksRef.current, { type: 'audio/webm' });
    onRecordingComplete(blob);
    stopVisualizer();
    stream.getTracks().forEach(track => track.stop());
  };
  \<close>
  The handler of recorder \<open>j\<close>, run when its queued \<^verbatim>\<open>stop\<close> event fires. \<open>call\<close> runs the
  callback on the blob: it acts on the rest of the program (\<open>'w\<close>) and either returns
  (\<open>None\<close>) or throws. There is no \<^verbatim>\<open>try\<close> in the handler: when the callback throws, the
  handler ends there, and the thrown value is the first component of the result.
\<close>

definition onstop ::
  "('cb \<Rightarrow> Blob \<Rightarrow> 'w \<Rightarrow> js_error option \<times> 'w) \<Rightarrow> nat \<Rightarrow> 'w \<times> 'cb AudioRecorder \<Rightarrow>
     js_error option \<times> 'w \<times> 'cb AudioRecorder" where
  "onstop call j wr =
     (case wr of (w, r) \<Rightarrow>
        if j < length (recorders r) \<and> stop_queued (recorders r ! j) then
          (let r0 = r\<lparr>recorders := (recorders r)[j := (recorders r ! j)\<lparr>stop_queued := False\<rparr>]\<rparr>;
               blob = new_Blob (chunksRef r0) ''audio/webm''
           in case call (onRecordingComplete (recorders r0 ! j)) blob w of
                (Some e, w') \<Rightarrow> (Some e, w', r0)
              | (None, w') \<Rightarrow> (None, w', stop_tracks j (stopVisualizer r0)))
        else (None, w, r))"

text \<open>
  \<^verbatim>\<open>
  const stopRecording = () => {
    if (mediaRecorderRef.current && isRecording) {
      mediaRecorderRef.current.stop();
      setIsRecording(false);
    }
  };
  \<close>
  \<^verbatim>\<open>stop()\<close> on an inactive recorder throws an InvalidStateError before \<^verbatim>\<open>setIsRecording\<close>.
\<close>

definition stopRecording :: "'cb AudioRecorder \<Rightarrow> js_error option \<times> 'cb AudioRecorder" where
  "stopRecording r =
     (case mediaRecorderRef r of
        None \<Rightarrow> (None, r)
      | Some j \<Rightarrow>
          if \<not> isRecording r then (None, r)
          else if j < length (recorders r) \<and> recording (recorders r ! j) then
            (None, r\<lparr>recorders := (recorders r)[j := (recorders r ! j)\<lparr>recording := False, stop_queued := True\<rparr>],
                     isRecording := False\<rparr>)
          else (Some (Error ''InvalidStateError''), r))"

text \<open>
  The browser runs the oldest scheduled animation frame callback, which is \<^verbatim>\<open>draw\<close>.
\<close>

definition animation_frame :: "'cb AudioRecorder \<Rightarrow> 'cb AudioRecorder" where
  "animation_frame r =
     (case scheduled_frames r of
        [] \<Rightarrow> r
      | h # hs \<Rightarrow> draw (r\<lparr>scheduled_frames := hs\<rparr>))"

text \<open>
  A resolution button: \<^verbatim>\<open>onClick={() => setImageSize(size)}\<close> with \<^verbatim>\<open>disabled={isRecording}\<close>.
  A disabled button gets no click; the result is the argument of the call of the
  \<^verbatim>\<open>setImageSize\<close> prop, if one is made.
\<close>

definition size_button_click :: "ImageSize \<Rightarrow> 'cb AudioRecorder \<Rightarrow> ImageSize option" where
  "size_button_click size' r = (if isRecording r then None else Some size')"

text \<open>
  What the cleanup of \<^verbatim>\<open>onstop\<close> relies on: at most one frame is scheduled, and its handle
  is the one that \<^verbatim>\<open>animationFrameRef\<close> holds (one visualizer loop is running).
\<close>

definition visualizer_handle_current :: "'cb AudioRecorder \<Rightarrow> bool" where
  "visualizer_handle_current r =
     (case scheduled_frames r of
        [] \<Rightarrow> True
      | h # hs \<Rightarrow> hs = [] \<and> h \<noteq> 0 \<and> animationFrameRef r = Some h)"

section \<open>components/ChatInterface.tsx\<close>

datatype role = user | model

record ChatMessage =
  role :: role
  "text" :: string

record ChatInterface =
  messages :: "ChatMessage list"
  input :: string
  isLoading :: bool
  chatSessionRef :: "DreamChatSession option"

text \<open>The state at mount, before the effect that creates the session has run.\<close>

definition initial_ChatInterface :: ChatInterface where
  "initial_ChatInterface = \<lparr>messages = [], input = [], isLoading = False, chatSessionRef = None\<rparr>"

text \<open>\<^verbatim>\<open>chatSessionRef.current = new DreamChatSession(systemInstruction)\<close> in the effect.\<close>

definition create_session :: "string \<Rightarrow> ChatInterface \<Rightarrow> ChatInterface" where
  "create_session instruction s = s\<lparr>chatSessionRef := Some \<lparr>systemInstruction = instruction\<rparr>\<rparr>"

text \<open>
  \<^verbatim>\<open>String.prototype.trim\<close> removes white space and line terminators from both ends. A
  \<open>char\<close> is a code unit below 256, where these are U+0009 to U+000D, U+0020 and U+00A0.
\<close>

definition is_white_space :: "char \<Rightarrow> bool" where
  "is_white_space c = (of_char c \<in> {9, 10, 11, 12, 13, 32, 160 :: nat})"

definition trim :: "string \<Rightarrow> string" where
  "trim s = rev (dropWhile is_white_space (rev (dropWhile is_white_space s)))"

text \<open>
  \<^verbatim>\<open>
  const handleSend = async () => {
    if (!input.trim() || !chatSessionRef.current || isLoading) return;
    const userMsg: ChatMessage = { role: 'user', text: input };
    setMessages(prev => [...prev, userMsg]);
    setInput('');
    setIsLoading(true);
    try {
      const responseText = await chatSessionRef.current.sendMessage(input);
  \<close>
  The function up to the await. The second component is the argument of the call of
  \<^verbatim>\<open>sendMessage\<close>, if the call is made.
\<close>

definition handleSend :: "ChatInterface \<Rightarrow> ChatInterface \<times> string option" where
  "handleSend s =
     (if trim (input s) = [] \<or> chatSessionRef s = None \<or> isLoading s then (s, None)
      else (s\<lparr>messages := messages s @ [\<lparr>role = user, text = input s\<rparr>],
              input := [], isLoading := True\<rparr>,
            Some (input s)))"

text \<open>
  \<^verbatim>\<open>
      setMessages(prev => [...prev, { role: 'model', text: responseText }]);
    } catch (error) {
      console.error("Chat error:", error);
      setMessages(prev => [...prev, { role: 'model', text: "I'm sorry, I'm having trouble connecting to the dream realm right now." }]);
    } finally {
      setIsLoading(false);
    }
  \<close>
  The function after the await, on the settled result of \<^verbatim>\<open>sendMessage\<close> and the state
  current at that moment.
\<close>

definition handleSend_settled :: "js_error + string \<Rightarrow> ChatInterface \<Rightarrow> ChatInterface" where
  "handleSend_settled result prev =
     (case result of
        Inr responseText \<Rightarrow>
          prev\<lparr>messages := messages prev @ [\<lparr>role = model, text = responseText\<rparr>],
               isLoading := False\<rparr>
      | Inl e \<Rightarrow>
          prev\<lparr>messages := messages prev @
                 [\<lparr>role = model,
                   text = ''I'm sorry, I'm having trouble connecting to the dream realm right now.''\<rparr>],
               isLoading := False\<rparr>)"

section \<open>App and AudioRecorder together\<close>

text \<open>
  \<^verbatim>\<open>
  {state.step === 'idle' && (
    <AudioRecorder onRecordingComplete={handleRecordingComplete}
                   imageSize={state.imageSize} setImageSize={setImageSize} />
  )}
  \<close>
  The application with the instances of the recorder that it has mounted so far. An
  instance is mounted while the step is \<open>idle\<close>; when the step leaves \<open>idle\<close> the instance is
  unmounted, and when the step is \<open>idle\<close> again a new instance is mounted, with the initial
  values of its state and refs. An unmounted instance has no buttons and no canvas
  (\<^verbatim>\<open>canvasRef.current\<close> is null), but the browser objects it created and their handlers
  live on with the refs of that instance: its \<^verbatim>\<open>MediaRecorder\<close>s, its streams, its pending
  \<^verbatim>\<open>getUserMedia\<close> calls and its animation frames. There is no cleanup effect in the
  component.

  The callback that an instance receives in a render is the \<^verbatim>\<open>handleRecordingComplete\<close> of
  that render of \<^verbatim>\<open>App\<close>, which closes over the \<^verbatim>\<open>state\<close> of that render: a callback is its
  closure, a \<open>DreamState\<close>.
\<close>

record DreamStream =
  app :: App
  instances :: "DreamState AudioRecorder list"
  mounted :: "nat option"

definition initial_DreamStream :: DreamStream where
  "initial_DreamStream =
     \<lparr>app = initial_App, instances = [initial_AudioRecorder], mounted = Some 0\<rparr>"

text \<open>
  Calling the prop: \<^verbatim>\<open>handleRecordingComplete\<close> is an async function, so the call returns a
  promise and never throws into \<^verbatim>\<open>onstop\<close>.
\<close>

definition call_handler :: "DreamState \<Rightarrow> Blob \<Rightarrow> App \<Rightarrow> js_error option \<times> App" where
  "call_handler closure blob a = (None, handleRecordingComplete closure blob a)"

text \<open>
  The render that follows an event, after all updaters of the event have been applied:
  at step \<open>idle\<close> the mounted instance stays, or a new one is mounted if there is none; at
  any other step nothing is mounted.
\<close>

definition render :: "DreamStream \<Rightarrow> DreamStream" where
  "render sys =
     (if step (state (app sys)) = idle then
        (case mounted sys of
           Some k \<Rightarrow> sys
         | None \<Rightarrow>
             sys\<lparr>instances := instances sys @ [initial_AudioRecorder],
                 mounted := Some (length (instances sys))\<rparr>)
      else sys\<lparr>mounted := None\<rparr>)"

text \<open>A handler of instance \<open>k\<close> runs on the state and refs of that instance.\<close>

definition on_instance ::
  "nat \<Rightarrow> (DreamState AudioRecorder \<Rightarrow> DreamState AudioRecorder) \<Rightarrow> DreamStream \<Rightarrow> DreamStream" where
  "on_instance k f sys =
     (if k < length (instances sys)
      then sys\<lparr>instances := (instances sys)[k := f (instances sys ! k)]\<rparr>
      else sys)"

text \<open>
  The clicks go to the mounted instance; the events of the browser name the instance
  whose handler they run (first number) and, where there are several, the call of
  \<^verbatim>\<open>startRecording\<close> or the \<^verbatim>\<open>MediaRecorder\<close> of that instance (second number).
\<close>

datatype event =
    Click_record
  | Click_size ImageSize
  | Click_header
  | Stream_granted nat nat nat
  | Stream_denied nat nat
  | Data_available nat Blob
  | Animation_frame nat
  | Stop_event nat nat
  | Analysis_done nat "js_error + json"
  | Image_done nat "js_error + string"

text \<open>
  \<^verbatim>\<open>onClick={isRecording ? stopRecording : startRecording}\<close> for the record button;
  \<^verbatim>\<open>startRecording\<close> gets the callback of the current render. When a stream is granted,
  the canvas is there exactly if the instance is still mounted, and it gives a 2d context.
\<close>

fun handle_event :: "DreamStream \<Rightarrow> event \<Rightarrow> DreamStream" where
  "handle_event sys Click_record =
     (case mounted sys of
        None \<Rightarrow> sys
      | Some k \<Rightarrow>
          on_instance k
            (\<lambda>r. if isRecording r then snd (stopRecording r)
                 else startRecording (state (app sys)) r) sys)"
| "handle_event sys (Click_size size') =
     (case mounted sys of
        None \<Rightarrow> sys
      | Some k \<Rightarrow>
          if k < length (instances sys) then
            (case size_button_click size' (instances sys ! k) of
               None \<Rightarrow> sys
             | Some sz \<Rightarrow> sys\<lparr>app := app_step (app sys) (Set_image_size sz)\<rparr>)
          else sys)"
| "handle_event sys Click_header = sys\<lparr>app := app_step (app sys) Reset\<rparr>"
| "handle_event sys (Stream_granted k i n) =
     on_instance k (stream_granted i n (mounted sys = Some k) True) sys"
| "handle_event sys (Stream_denied k i) = on_instance k (stream_denied i) sys"
| "handle_event sys (Data_available k chunk) = on_instance k (ondataavailable chunk) sys"
| "handle_event sys (Animation_frame k) = on_instance k animation_frame sys"
| "handle_event sys (Stop_event k j) =
     (if k < length (instances sys) then
        (case onstop call_handler j (app sys, instances sys ! k) of
           (thrown, a, r) \<Rightarrow> sys\<lparr>app := a, instances := (instances sys)[k := r]\<rparr>)
      else sys)"
| "handle_event sys (Analysis_done i result) =
     sys\<lparr>app := app_step (app sys) (Analysis_settled i result)\<rparr>"
| "handle_event sys (Image_done i result) =
     sys\<lparr>app := app_step (app sys) (Image_settled i result)\<rparr>"

definition dream_step :: "DreamStream \<Rightarrow> event \<Rightarrow> DreamStream" where
  "dream_step sys ev = render (handle_event sys ev)"

definition dream_run :: "event list \<Rightarrow> DreamStream" where
  "dream_run evs = foldl dream_step initial_DreamStream evs"

text \<open>The arguments of the calls of \<^verbatim>\<open>generateDreamImage\<close> that are pending.\<close>

fun image_call :: "handler_call \<Rightarrow> (json option \<times> ImageSize) option" where
  "image_call (Awaiting_image prompt size') = Some (prompt, size')"
| "image_call t = None"

section \<open>Sample inputs\<close>

definition sample_blob :: Blob where
  "sample_blob = \<lparr>blob_data = ''abc'', blob_type = ''audio/webm''\<rparr>"

definition sample_analysis :: json where
  "sample_analysis =
     JObject [(''transcription'', JString ''t''), (''interpretation'', JString ''i''),
              (''visualPrompt'', JString ''v''), (''emotionalTheme'', JString ''e'')]"

text \<open>A recording is analysed, then the image request fails.\<close>

definition image_failure_events :: "app_event list" where
  "image_failure_events =
     [Recording_complete initial_state sample_blob,
      Analysis_settled 0 (Inr sample_analysis),
      Image_settled 0 (Inl (Error ''No image generated''))]"

text \<open>A recording is analysed and the image arrives; the resolution was set to 4K before.\<close>

definition success_events :: "app_event list" where
  "success_events =
     [Set_image_size Size_4K,
      Recording_complete initial_state sample_blob,
      Analysis_settled 0 (Inr sample_analysis),
      Image_settled 0 (Inr ''data:image/png;base64,AAAA'')]"

text \<open>A recording is analysed; the image is still awaited.\<close>

definition analysed_events :: "app_event list" where
  "analysed_events =
     [Recording_complete initial_state sample_blob,
      Analysis_settled 0 (Inr sample_analysis)]"

text \<open>The header is clicked while the image is awaited; the image arrives afterwards.\<close>

definition reset_while_generating_events :: "app_event list" where
  "reset_while_generating_events =
     [Recording_complete initial_state sample_blob,
      Analysis_settled 0 (Inr sample_analysis),
      Reset,
      Image_settled 0 (Inr ''data:image/png;base64,AAAA'')]"

text \<open>
  A first recording is abandoned by a click on the header, a second one is started, the
  first one completes, and the analysis of the second fails.
\<close>

definition overlapping_events :: "app_event list" where
  "overlapping_events =
     [Recording_complete initial_state sample_blob,
      Reset,
      Recording_complete initial_state sample_blob,
      Analysis_settled 0 (Inr sample_analysis),
      Image_settled 0 (Inr ''data:image/png;base64,AAAA''),
      Analysis_settled 1 (Inl (Error ''No response from Gemini''))]"

text \<open>The model answers with the text \<^verbatim>\<open>null\<close>, which is valid JSON.\<close>

definition null_analysis_events :: "app_event list" where
  "null_analysis_events =
     [Recording_complete initial_state sample_blob,
      Analysis_settled 0 (Inr JNull)]"

text \<open>
  A recorder with a stream of two tracks after one animation frame, stopped by the
  button, with the \<^verbatim>\<open>stop\<close> event of its \<^verbatim>\<open>MediaRecorder\<close> queued; and two callbacks for
  it, one that throws and one that returns.
\<close>

definition stopped_recorder :: "unit AudioRecorder" where
  "stopped_recorder =
     snd (stopRecording
       (animation_frame
         (stream_granted 0 2 True True (startRecording () initial_AudioRecorder))))"

definition throwing_callback :: "unit \<Rightarrow> Blob \<Rightarrow> unit \<Rightarrow> js_error option \<times> unit" where
  "throwing_callback cb blob w = (Some (Error ''callback failed''), w)"

definition returning_callback :: "unit \<Rightarrow> Blob \<Rightarrow> unit \<Rightarrow> js_error option \<times> unit" where
  "returning_callback cb blob w = (None, w)"

text \<open>
  A first run: the record button is clicked, 4K is chosen while the microphone request is
  pending, the stream is granted, the recording is stopped and analysed.
\<close>

definition late_selection_events :: "event list" where
  "late_selection_events =
     [Click_record, Click_size Size_4K, Stream_granted 0 0 1, Click_record,
      Data_available 0 sample_blob, Stop_event 0 0, Analysis_done 0 (Inr sample_analysis)]"

text \<open>
  The record button is clicked twice before the microphone is granted; both requests are
  granted, the recording is stopped and its \<^verbatim>\<open>stop\<close> event fires.
\<close>

definition double_start_events :: "event list" where
  "double_start_events =
     [Click_record, Click_record, Stream_granted 0 0 1, Stream_granted 0 1 1, Click_record,
      Stop_event 0 1]"

text \<open>The same as the first run, with 4K chosen before the record button is clicked.\<close>

definition early_selection_events :: "event list" where
  "early_selection_events =
     [Click_size Size_4K, Click_record, Stream_granted 0 0 1, Click_record,
      Data_available 0 sample_blob, Stop_event 0 0, Analysis_done 0 (Inr sample_analysis)]"

text \<open>
  A first recording is stopped and its analysis is pending; the header is clicked and a
  second recording is started on the new instance; the first call completes, which
  unmounts the second instance while it records; the header is clicked again and 2K is
  chosen on the third instance.
\<close>

definition remount_events :: "event list" where
  "remount_events =
     [Click_record, Stream_granted 0 0 1, Click_record, Stop_event 0 0,
      Click_header,
      Click_record, Stream_granted 1 0 1,
      Analysis_done 0 (Inr sample_analysis),
      Image_done 0 (Inr ''data:image/png;base64,AAAA''),
      Click_header,
      Click_size Size_2K]"

text \<open>An image response whose only inline part is in the second candidate.\<close>

definition image_in_second_candidate :: image_response where
  "image_in_second_candidate =
     \<lparr>candidates = Some
        [\<lparr>candidate_content = Some
            \<lparr>parts = Some [\<lparr>part_text = Some ''First draft'', part_inlineData = None\<rparr>]\<rparr>\<rparr>,
         \<lparr>candidate_content = Some
            \<lparr>parts = Some
               [\<lparr>part_text = None,
                  part_inlineData = Some \<lparr>data = Some ''AAAA'', mimeType = Some ''image/png''\<rparr>\<rparr>]\<rparr>\<rparr>]\<rparr>"

text \<open>An image response whose first candidate has a text part and two inline parts.\<close>

definition sample_image_response :: image_response where
  "sample_image_response =
     \<lparr>candidates = Some
        [\<lparr>candidate_content = Some
            \<lparr>parts = Some
               [\<lparr>part_text = Some ''Here is the image'', part_inlineData = None\<rparr>,
                \<lparr>part_text = None,
                  part_inlineData = Some \<lparr>data = Some ''AAAA'', mimeType = Some ''image/png''\<rparr>\<rparr>,
                \<lparr>part_text = None,
                  part_inlineData = Some \<lparr>data = Some ''BBBB'', mimeType = Some ''image/png''\<rparr>\<rparr>]\<rparr>\<rparr>]\<rparr>"

text \<open>A chat with one exchange, a session, and only blanks in the input field.\<close>

definition blank_input_chat :: ChatInterface where
  "blank_input_chat =
     \<lparr>messages = [\<lparr>role = user, text = ''Why was I flying?''\<rparr>,
                  \<lparr>role = model, text = ''Flight often stands for release.''\<rparr>],
      input = ''   '', isLoading = False,
      chatSessionRef = Some \<lparr>systemInstruction = ''You are a dream interpretation assistant.''\<rparr>\<rparr>"

section \<open>Unfolding rules\<close>

lemmas app_defs = run_def initial_App_def initial_state_def handleRecordingComplete_def
  analysis_settled_def image_settled_def recording_received_def analysis_received_def
  image_received_def processing_failed_def reset_def setImageSize_def error_text_def

lemmas audio_defs = initial_AudioRecorder_def draw_def startVisualizer_def
  cancelAnimationFrame_def stopVisualizer_def startRecording_def stream_granted_def
  stream_denied_def ondataavailable_def new_Blob_def stop_tracks_def onstop_def
  stopRecording_def animation_frame_def size_button_click_def visualizer_handle_current_def

lemmas dream_defs = dream_run_def dream_step_def render_def on_instance_def
  initial_DreamStream_def call_handler_def

section \<open>The application state\<close>

text \<open>The catch block always leaves a message that is not empty, at step \<open>idle\<close>.\<close>

lemma error_text_nonempty: "error_text e \<noteq> []"
  by (cases e) (simp_all add: error_text_def)

lemma processing_failed_idle:
  "step (processing_failed e prev) = idle \<and>
   error (processing_failed e prev) = Some (error_text e)"
  by (simp add: processing_failed_def)

lemma app_step_complete_has_image:
  "complete_has_image (state a) \<Longrightarrow> complete_has_image (state (app_step a ev))"
  by (cases ev)
     (auto simp: complete_has_image_def handleRecordingComplete_def analysis_settled_def
        image_settled_def recording_received_def analysis_received_def image_received_def
        processing_failed_def reset_def setImageSize_def
        split: handler_call.splits sum.splits)

lemma foldl_complete_has_image:
  "complete_has_image (state a) \<Longrightarrow> complete_has_image (state (foldl app_step a evs))"
  by (induction evs arbitrary: a) (simp_all add: app_step_complete_has_image)

lemma app_step_generating_has_analysis:
  "generating_has_analysis (state a) \<Longrightarrow> \<not> delivers_null ev \<Longrightarrow>
   generating_has_analysis (state (app_step a ev))"
  by (cases ev)
     (auto simp: generating_has_analysis_def handleRecordingComplete_def analysis_settled_def
        image_settled_def recording_received_def analysis_received_def image_received_def
        processing_failed_def reset_def setImageSize_def
        split: handler_call.splits sum.splits)

lemma foldl_generating_has_analysis:
  "generating_has_analysis (state a) \<Longrightarrow> \<not> list_ex delivers_null evs \<Longrightarrow>
   generating_has_analysis (state (foldl app_step a evs))"
  by (induction evs arbitrary: a) (simp_all add: app_step_generating_has_analysis)

text \<open>
  \<^bold>\<open>C1\<close>, as the code has it. In every state that the events can produce from the
  initial one: at step \<open>complete\<close> the image reference is not null; and, as long as no
  analysis delivered was JSON null, at step \<open>generating_image\<close> the analysis is not
  null. The other directions of the two equivalences do not hold: the updater of the
  catch block and the one before the first await spread \<^verbatim>\<open>...prev\<close> and keep \<open>analysis\<close>
  and \<open>imageUrl\<close>, and a click on the header clears them while a call is pending.
\<close>

theorem reachable_state_invariant:
  "(step (state (run evs)) = complete \<longrightarrow> imageUrl (state (run evs)) \<noteq> None) \<and>
   (\<not> list_ex delivers_null evs \<longrightarrow> step (state (run evs)) = generating_image \<longrightarrow>
      analysis (state (run evs)) \<noteq> JNull)"
proof -
  have "complete_has_image (state initial_App)"
    by (simp add: complete_has_image_def initial_App_def initial_state_def)
  then have a: "complete_has_image (state (run evs))"
    unfolding run_def by (rule foldl_complete_has_image)
  have "generating_has_analysis (state initial_App)"
    by (simp add: generating_has_analysis_def initial_App_def initial_state_def)
  then have b: "\<not> list_ex delivers_null evs \<Longrightarrow> generating_has_analysis (state (run evs))"
    unfolding run_def by (rule foldl_generating_has_analysis)
  from a b show ?thesis
    by (simp add: complete_has_image_def generating_has_analysis_def)
qed

theorem reachable_state_invariant_witness:
  "step (state (run success_events)) = complete \<and>
   imageUrl (state (run success_events)) \<noteq> None \<and>
   \<not> list_ex delivers_null analysed_events \<and>
   step (state (run analysed_events)) = generating_image \<and>
   analysis (state (run analysed_events)) \<noteq> JNull"
  using reachable_state_invariant [of success_events]
    reachable_state_invariant [of analysed_events]
  by (simp add: success_events_def analysed_events_def sample_analysis_def app_defs)

text \<open>
  The first equivalence fails on the error transition: after a successful analysis and a failed
  image request the step is \<open>idle\<close> and the analysis is still there.
\<close>

theorem error_transition_keeps_analysis:
  "step (state (run image_failure_events)) = idle \<and>
   analysis (state (run image_failure_events)) \<noteq> JNull"
  by (simp add: image_failure_events_def sample_analysis_def app_defs)

text \<open>
  The remaining directions fail as well. A click on the header while the image is
  awaited gives step \<open>complete\<close> without an analysis; overlapping calls leave an image
  reference at step \<open>idle\<close>; a response with the text \<^verbatim>\<open>null\<close> passes through step
  \<open>generating_image\<close> without an analysis.
\<close>

lemma complete_without_analysis:
  "step (state (run reset_while_generating_events)) = complete \<and>
   analysis (state (run reset_while_generating_events)) = JNull"
  by (simp add: reset_while_generating_events_def sample_analysis_def app_defs)

lemma idle_with_image:
  "step (state (run overlapping_events)) = idle \<and>
   imageUrl (state (run overlapping_events)) \<noteq> None"
  by (simp add: overlapping_events_def sample_analysis_def app_defs)

lemma null_analysis_fails:
  "step (state (run null_analysis_events)) = idle \<and>
   error (state (run null_analysis_events)) = Some ''Cannot read properties of null''"
  by (simp add: null_analysis_events_def app_defs)

section \<open>The recorder\<close>

lemma stopVisualizer_no_frames:
  "visualizer_handle_current r \<Longrightarrow> scheduled_frames (stopVisualizer r) = []"
  by (cases "scheduled_frames r")
     (auto simp: visualizer_handle_current_def stopVisualizer_def cancelAnimationFrame_def
        Let_def split: option.splits)

lemma stopVisualizer_recorders: "recorders (stopVisualizer r) = recorders r"
  by (simp add: stopVisualizer_def cancelAnimationFrame_def Let_def split: option.splits)

lemma stop_tracks_frames: "scheduled_frames (stop_tracks j r) = scheduled_frames r"
  by (simp add: stop_tracks_def)

lemma stop_tracks_ended:
  "j < length (recorders r) \<Longrightarrow>
   list_all (\<lambda>t. t = ended) (stream (recorders (stop_tracks j r) ! j))"
  by (simp add: stop_tracks_def list_all_iff)

lemma onstop_cleanup:
  assumes "j < length (recorders r)" and "stop_queued (recorders r ! j)"
    and "visualizer_handle_current r"
    and "fst (call (onRecordingComplete (recorders r ! j))
                (new_Blob (chunksRef r) ''audio/webm'') w) = None"
  shows "fst (onstop call j (w, r)) = None \<and>
         list_all (\<lambda>t. t = ended) (stream (recorders (snd (snd (onstop call j (w, r)))) ! j)) \<and>
         scheduled_frames (snd (snd (onstop call j (w, r)))) = []"
proof -
  define r0 where
    "r0 = r\<lparr>recorders := (recorders r)[j := (recorders r ! j)\<lparr>stop_queued := False\<rparr>]\<rparr>"
  obtain w' where c:
    "call (onRecordingComplete (recorders r ! j)) (new_Blob (chunksRef r) ''audio/webm'') w
       = (None, w')"
    using assms(4)
    by (cases "call (onRecordingComplete (recorders r ! j))
                 (new_Blob (chunksRef r) ''audio/webm'') w") simp
  have v0: "visualizer_handle_current r0"
    using assms(3) by (simp add: r0_def visualizer_handle_current_def split: list.splits)
  have l0: "j < length (recorders (stopVisualizer r0))"
    using assms(1) by (simp add: stopVisualizer_recorders r0_def)
  have eq: "onstop call j (w, r) = (None, w', stop_tracks j (stopVisualizer r0))"
    using assms(1,2) c by (simp add: onstop_def r0_def Let_def)
  show ?thesis
    unfolding eq using stop_tracks_ended [OF l0] stopVisualizer_no_frames [OF v0]
    by (simp add: stop_tracks_frames)
qed

text \<open>
  \<^bold>\<open>C2\<close>, as the code has it. When the queued \<^verbatim>\<open>stop\<close> event of a recorder fires and the
  completion callback returns, the handler ends every track of the stream and leaves no
  animation frame scheduled, provided one visualizer loop is running whose handle is in
  \<^verbatim>\<open>animationFrameRef\<close>. The handler calls the callback first and has no \<^verbatim>\<open>try\<close>: a callback
  that throws ends it before the cleanup.
\<close>

theorem onstop_releases_when_callback_returns:
  assumes "j < length (recorders r)" and "stop_queued (recorders r ! j)"
    and "visualizer_handle_current r"
    and "fst (call (onRecordingComplete (recorders r ! j))
                (new_Blob (chunksRef r) ''audio/webm'') w) = None"
  shows "fst (onstop call j (w, r)) = None \<and>
         list_all (\<lambda>t. t = ended) (stream (recorders (snd (snd (onstop call j (w, r)))) ! j)) \<and>
         scheduled_frames (snd (snd (onstop call j (w, r)))) = []"
  using assms by (rule onstop_cleanup)

theorem onstop_releases_when_callback_returns_witness:
  "0 < length (recorders stopped_recorder) \<and>
   stop_queued (recorders stopped_recorder ! 0) \<and>
   visualizer_handle_current stopped_recorder \<and>
   stream (recorders stopped_recorder ! 0) = [live, live] \<and>
   scheduled_frames stopped_recorder = [2] \<and>
   fst (returning_callback (onRecordingComplete (recorders stopped_recorder ! 0))
          (new_Blob (chunksRef stopped_recorder) ''audio/webm'') ()) = None \<and>
   fst (onstop returning_callback 0 ((), stopped_recorder)) = None \<and>
   stream (recorders (snd (snd (onstop returning_callback 0 ((), stopped_recorder)))) ! 0)
     = [ended, ended] \<and>
   scheduled_frames (snd (snd (onstop returning_callback 0 ((), stopped_recorder)))) = []"
  using onstop_releases_when_callback_returns [of 0 stopped_recorder returning_callback "()"]
  by (simp add: stopped_recorder_def returning_callback_def audio_defs numeral_2_eq_2)

text \<open>
  With a callback that throws, the same recorder keeps both tracks live and the frame
  scheduled.
\<close>

theorem onstop_throwing_callback_skips_cleanup:
  "fst (onstop throwing_callback 0 ((), stopped_recorder)) = Some (Error ''callback failed'') \<and>
   stream (recorders (snd (snd (onstop throwing_callback 0 ((), stopped_recorder)))) ! 0)
     = [live, live] \<and>
   scheduled_frames (snd (snd (onstop throwing_callback 0 ((), stopped_recorder)))) = [2]"
  by (simp add: stopped_recorder_def throwing_callback_def audio_defs numeral_2_eq_2)

text \<open>
  The condition on the visualizer holds through an ordinary recording: it is established
  when the stream is granted to a recorder without scheduled frames, and kept by every
  animation frame, every chunk of data and the stop button.
\<close>

lemma visualizer_handle_current_stream_granted:
  "scheduled_frames r = [] \<Longrightarrow> visualizer_handle_current (stream_granted i n canvas ctx r)"
  by (simp add: visualizer_handle_current_def stream_granted_def startVisualizer_def draw_def
      split: start_call.splits)

lemma visualizer_handle_current_animation_frame:
  "visualizer_handle_current r \<Longrightarrow> visualizer_handle_current (animation_frame r)"
  by (cases "scheduled_frames r")
     (simp_all add: visualizer_handle_current_def animation_frame_def draw_def)

lemma visualizer_handle_current_ondataavailable:
  "visualizer_handle_current r \<Longrightarrow> visualizer_handle_current (ondataavailable chunk r)"
  by (simp add: visualizer_handle_current_def ondataavailable_def split: list.splits)

lemma visualizer_handle_current_stopRecording:
  "visualizer_handle_current r \<Longrightarrow> visualizer_handle_current (snd (stopRecording r))"
  by (simp add: visualizer_handle_current_def stopRecording_def split: option.splits list.splits)

lemma visualizer_handle_current_frames:
  "visualizer_handle_current r \<Longrightarrow> visualizer_handle_current ((animation_frame ^^ n) r)"
  by (induction n) (simp_all add: visualizer_handle_current_animation_frame)

lemma ordinary_recording_handle_current:
  "visualizer_handle_current
     (snd (stopRecording ((animation_frame ^^ n)
        (stream_granted 0 k canvas ctx (startRecording cb initial_AudioRecorder)))))"
  by (rule visualizer_handle_current_stopRecording, rule visualizer_handle_current_frames,
      rule visualizer_handle_current_stream_granted)
     (simp add: startRecording_def initial_AudioRecorder_def)

text \<open>
  It does not hold when \<^verbatim>\<open>startRecording\<close> ran twice before the first stream arrived: then
  two loops run and two streams are open, the \<^verbatim>\<open>stop\<close> event of the second recorder cancels
  one frame and ends one stream, and the other loop and the other stream stay.
\<close>

lemma double_start_leaves_loop_and_stream:
  "stream (recorders (instances (dream_run double_start_events) ! 0) ! 0) = [live] \<and>
   stream (recorders (instances (dream_run double_start_events) ! 0) ! 1) = [ended] \<and>
   scheduled_frames (instances (dream_run double_start_events) ! 0) = [1]"
  by (simp add: double_start_events_def dream_defs app_defs audio_defs)

text \<open>
  In the application the callback is \<^verbatim>\<open>handleRecordingComplete\<close>, which returns a promise,
  so the \<^verbatim>\<open>stop\<close> event always reaches the cleanup.
\<close>

lemma render_instances:
  "k < length (instances sys) \<Longrightarrow> instances (render sys) ! k = instances sys ! k"
  by (simp add: render_def nth_append split: option.splits)

lemma stop_event_releases:
  assumes "k < length (instances sys)"
    and "j < length (recorders (instances sys ! k))"
    and "stop_queued (recorders (instances sys ! k) ! j)"
    and "visualizer_handle_current (instances sys ! k)"
  shows "list_all (\<lambda>t. t = ended)
           (stream (recorders (instances (dream_step sys (Stop_event k j)) ! k) ! j)) \<and>
         scheduled_frames (instances (dream_step sys (Stop_event k j)) ! k) = []"
proof -
  obtain thrown a r where o:
    "onstop call_handler j (app sys, instances sys ! k) = (thrown, a, r)"
    by (cases "onstop call_handler j (app sys, instances sys ! k)") auto
  have "fst (call_handler (onRecordingComplete (recorders (instances sys ! k) ! j))
               (new_Blob (chunksRef (instances sys ! k)) ''audio/webm'') (app sys)) = None"
    by (simp add: call_handler_def)
  with assms(2-4) have c:
    "list_all (\<lambda>t. t = ended) (stream (recorders r ! j)) \<and> scheduled_frames r = []"
    using onstop_cleanup [of j "instances sys ! k" call_handler "app sys"] o by simp
  have h: "handle_event sys (Stop_event k j) = sys\<lparr>app := a, instances := (instances sys)[k := r]\<rparr>"
    using assms(1) o by simp
  have "instances (dream_step sys (Stop_event k j)) ! k = r"
    unfolding dream_step_def h using assms(1) by (simp add: render_instances)
  with c show ?thesis by simp
qed

section \<open>The application inside the whole program\<close>

text \<open>
  Every event of the program with the recorder acts on the application as no event or as
  one event of the application alone, so the states of the application in the whole
  program are among those that \<open>run\<close> produces, and inherit what holds there.
\<close>

lemma app_render: "app (render sys) = app sys"
  by (simp add: render_def split: option.splits)

lemma app_on_instance: "app (on_instance k f sys) = app sys"
  by (simp add: on_instance_def)

lemma handle_event_app:
  "\<exists>aevs. app (handle_event sys ev) = foldl app_step (app sys) aevs"
proof (cases ev)
  case Click_record
  then have "app (handle_event sys ev) = foldl app_step (app sys) []"
    by (simp add: app_on_instance split: option.splits)
  then show ?thesis ..
next
  case (Click_size sz)
  show ?thesis
  proof (cases "app (handle_event sys ev) = app sys")
    case True
    then have "app (handle_event sys ev) = foldl app_step (app sys) []" by simp
    then show ?thesis ..
  next
    case False
    with Click_size have "app (handle_event sys ev) = foldl app_step (app sys) [Set_image_size sz]"
      by (auto simp: size_button_click_def split: option.splits if_splits)
    then show ?thesis ..
  qed
next
  case Click_header
  then have "app (handle_event sys ev) = foldl app_step (app sys) [Reset]" by simp
  then show ?thesis ..
next
  case (Stream_granted k i n)
  then have "app (handle_event sys ev) = foldl app_step (app sys) []"
    by (simp add: app_on_instance)
  then show ?thesis ..
next
  case (Stream_denied k i)
  then have "app (handle_event sys ev) = foldl app_step (app sys) []"
    by (simp add: app_on_instance)
  then show ?thesis ..
next
  case (Data_available k chunk)
  then have "app (handle_event sys ev) = foldl app_step (app sys) []"
    by (simp add: app_on_instance)
  then show ?thesis ..
next
  case (Animation_frame k)
  then have "app (handle_event sys ev) = foldl app_step (app sys) []"
    by (simp add: app_on_instance)
  then show ?thesis ..
next
  case (Stop_event k j)
  show ?thesis
  proof (cases "k < length (instances sys) \<and> j < length (recorders (instances sys ! k)) \<and>
                stop_queued (recorders (instances sys ! k) ! j)")
    case True
    with Stop_event have "app (handle_event sys ev) =
      foldl app_step (app sys)
        [Recording_complete (onRecordingComplete (recorders (instances sys ! k) ! j))
           (new_Blob (chunksRef (instances sys ! k)) ''audio/webm'')]"
      by (simp add: onstop_def call_handler_def Let_def)
    then show ?thesis ..
  next
    case False
    with Stop_event have "app (handle_event sys ev) = foldl app_step (app sys) []"
      by (auto simp: onstop_def)
    then show ?thesis ..
  qed
next
  case (Analysis_done i result)
  then have "app (handle_event sys ev) = foldl app_step (app sys) [Analysis_settled i result]"
    by simp
  then show ?thesis ..
next
  case (Image_done i result)
  then have "app (handle_event sys ev) = foldl app_step (app sys) [Image_settled i result]"
    by simp
  then show ?thesis ..
qed

lemma dream_step_app:
  "\<exists>aevs. app (dream_step sys ev) = foldl app_step (app sys) aevs"
  using handle_event_app [of sys ev] by (simp add: dream_step_def app_render)

lemma dream_run_app: "\<exists>aevs. app (dream_run evs) = run aevs"
proof (induction evs rule: rev_induct)
  case Nil
  have "app (dream_run []) = run []"
    by (simp add: dream_run_def run_def initial_DreamStream_def)
  then show ?case ..
next
  case (snoc ev evs)
  then obtain aevs where a: "app (dream_run evs) = run aevs" ..
  obtain aevs' where b:
    "app (dream_step (dream_run evs) ev) = foldl app_step (app (dream_run evs)) aevs'"
    using dream_step_app ..
  have "app (dream_run (evs @ [ev])) = run (aevs @ aevs')"
    using a b by (simp add: dream_run_def run_def)
  then show ?case ..
qed

lemma dream_run_complete_has_image:
  "step (state (app (dream_run evs))) = complete \<Longrightarrow>
   imageUrl (state (app (dream_run evs))) \<noteq> None"
proof -
  obtain aevs where a: "app (dream_run evs) = run aevs"
    using dream_run_app ..
  have "complete_has_image (state initial_App)"
    by (simp add: complete_has_image_def initial_App_def initial_state_def)
  then have "complete_has_image (state (run aevs))"
    unfolding run_def by (rule foldl_complete_has_image)
  then show "step (state (app (dream_run evs))) = complete \<Longrightarrow>
   imageUrl (state (app (dream_run evs))) \<noteq> None"
    unfolding a by (simp add: complete_has_image_def)
qed

section \<open>The analysis client\<close>

text \<open>
  \<^bold>\<open>C3\<close>, as the code has it. For a response with a text that is not empty,
  \<^verbatim>\<open>analyzeDreamAudio\<close> returns exactly what \<^verbatim>\<open>JSON.parse\<close> makes of the text: the parsed
  value, whose properties are then the strings provided, or the parser's error. The
  value is not checked against the shape of \<^verbatim>\<open>DreamAnalysis\<close>.
\<close>

theorem analyzeDreamAudio_returns_parse_result:
  assumes "response_text r = Some t" and "t \<noteq> []"
  shows "(\<forall>v. JSON_parse t = Inr v \<longrightarrow> analyzeDreamAudio JSON_parse (Inr r) = Inr v) \<and>
         (\<forall>e. JSON_parse t = Inl e \<longrightarrow> analyzeDreamAudio JSON_parse (Inr r) = Inl e)"
  using assms by (simp add: analyzeDreamAudio_def)

theorem analyzeDreamAudio_returns_parse_result_witness:
  "analyzeDreamAudio JSON_parse_excerpt
     (Inr \<lparr>response_text = Some ''{\"transcription\":\"t\",\"interpretation\":\"i\",\"visualPrompt\":\"v\",\"emotionalTheme\":\"e\"}''\<rparr>)
     = Inr sample_analysis \<and>
   is_DreamAnalysis sample_analysis \<and>
   property sample_analysis ''transcription'' = Inr (Some (JString ''t'')) \<and>
   property sample_analysis ''interpretation'' = Inr (Some (JString ''i'')) \<and>
   property sample_analysis ''visualPrompt'' = Inr (Some (JString ''v'')) \<and>
   property sample_analysis ''emotionalTheme'' = Inr (Some (JString ''e'')) \<and>
   analyzeDreamAudio JSON_parse_excerpt (Inr \<lparr>response_text = Some ''not json''\<rparr>)
     = Inl (SyntaxError ''Unexpected token'')"
  using analyzeDreamAudio_returns_parse_result
      [of "\<lparr>response_text = Some ''{\"transcription\":\"t\",\"interpretation\":\"i\",\"visualPrompt\":\"v\",\"emotionalTheme\":\"e\"}''\<rparr>"
          "''{\"transcription\":\"t\",\"interpretation\":\"i\",\"visualPrompt\":\"v\",\"emotionalTheme\":\"e\"}''"
          JSON_parse_excerpt]
    analyzeDreamAudio_returns_parse_result
      [of "\<lparr>response_text = Some ''not json''\<rparr>" "''not json''" JSON_parse_excerpt]
  by (simp add: JSON_parse_excerpt_def sample_analysis_def is_DreamAnalysis_def)

text \<open>
  A text that is valid JSON but lacks three of the four fields is returned as parsed, not
  rejected.
\<close>

theorem analyzeDreamAudio_returns_unvalidated:
  "analyzeDreamAudio JSON_parse_excerpt (Inr \<lparr>response_text = Some ''{\"transcription\":\"t\"}''\<rparr>)
     = Inr (JObject [(''transcription'', JString ''t'')]) \<and>
   \<not> is_DreamAnalysis (JObject [(''transcription'', JString ''t'')])"
  by (simp add: analyzeDreamAudio_def JSON_parse_excerpt_def is_DreamAnalysis_def)

text \<open>
  \<^bold>\<open>C4\<close>. A response without text (the text is \<^verbatim>\<open>undefined\<close> or empty) makes
  \<^verbatim>\<open>analyzeDreamAudio\<close> fail with the error \<^verbatim>\<open>No response from Gemini\<close>, and when that result
  settles for a call that awaits its analysis, the application is at step \<open>idle\<close> with
  that message, which is not empty, as its error.
\<close>

theorem no_text_fails_and_returns_to_idle:
  assumes "response_text r = None \<or> response_text r = Some []"
    and "i < length (calls a)" and "calls a ! i = Awaiting_analysis closure"
  shows "analyzeDreamAudio JSON_parse (Inr r) = Inl (Error ''No response from Gemini'') \<and>
         step (state (app_step a (Analysis_settled i (analyzeDreamAudio JSON_parse (Inr r))))) = idle \<and>
         error (state (app_step a (Analysis_settled i (analyzeDreamAudio JSON_parse (Inr r)))))
           = Some ''No response from Gemini'' \<and>
         error (state (app_step a (Analysis_settled i (analyzeDreamAudio JSON_parse (Inr r)))))
           \<noteq> Some []"
proof -
  have f: "analyzeDreamAudio JSON_parse (Inr r) = Inl (Error ''No response from Gemini'')"
    using assms(1) by (auto simp: analyzeDreamAudio_def)
  show ?thesis
    unfolding f using assms(2,3)
    by (simp add: analysis_settled_def processing_failed_def error_text_def)
qed

theorem no_text_fails_and_returns_to_idle_witness:
  "0 < length (calls (run [Recording_complete initial_state sample_blob])) \<and>
   calls (run [Recording_complete initial_state sample_blob]) ! 0 = Awaiting_analysis initial_state \<and>
   step (state (run [Recording_complete initial_state sample_blob])) = analyzing \<and>
   analyzeDreamAudio JSON_parse_excerpt (Inr \<lparr>response_text = Some []\<rparr>)
     = Inl (Error ''No response from Gemini'') \<and>
   step (state (app_step (run [Recording_complete initial_state sample_blob])
     (Analysis_settled 0 (analyzeDreamAudio JSON_parse_excerpt (Inr \<lparr>response_text = Some []\<rparr>)))))
     = idle \<and>
   error (state (app_step (run [Recording_complete initial_state sample_blob])
     (Analysis_settled 0 (analyzeDreamAudio JSON_parse_excerpt (Inr \<lparr>response_text = Some []\<rparr>)))))
     = Some ''No response from Gemini''"
  using no_text_fails_and_returns_to_idle
      [of "\<lparr>response_text = Some []\<rparr>" 0 "run [Recording_complete initial_state sample_blob]"
          initial_state JSON_parse_excerpt]
  by (simp add: app_defs)

text \<open>
  Every failure at either await ends at step \<open>idle\<close> with a message that is not empty.
\<close>

lemma failure_returns_to_idle:
  "i < length (calls a) \<Longrightarrow> calls a ! i = Awaiting_analysis closure \<Longrightarrow>
   step (state (analysis_settled i (Inl e) a)) = idle \<and>
   error (state (analysis_settled i (Inl e) a)) = Some (error_text e)"
  "i < length (calls a) \<Longrightarrow> calls a ! i = Awaiting_image prompt sz \<Longrightarrow>
   step (state (image_settled i (Inl e) a)) = idle \<and>
   error (state (image_settled i (Inl e) a)) = Some (error_text e)"
  by (simp_all add: analysis_settled_def image_settled_def processing_failed_def)

section \<open>Reset\<close>

text \<open>
  \<^bold>\<open>C5\<close>. A reset at step \<open>complete\<close> sets \<open>analysis\<close>, \<open>imageUrl\<close> and \<open>error\<close> to null and the
  step to \<open>idle\<close>, keeps \<open>imageSize\<close>, and clears \<open>audioBlob\<close>, \<open>isProcessing\<close> and
  \<open>isRecording\<close>.
\<close>

theorem reset_from_complete:
  assumes "step (state a) = complete"
  shows "analysis (state (app_step a Reset)) = JNull \<and>
         imageUrl (state (app_step a Reset)) = None \<and>
         error (state (app_step a Reset)) = None \<and>
         step (state (app_step a Reset)) = idle \<and>
         imageSize (state (app_step a Reset)) = imageSize (state a) \<and>
         audioBlob (state (app_step a Reset)) = None \<and>
         \<not> isProcessing (state (app_step a Reset)) \<and>
         \<not> DreamState.isRecording (state (app_step a Reset))"
  by (simp add: reset_def)

theorem reset_from_complete_witness:
  "step (state (run success_events)) = complete \<and>
   analysis (state (run success_events)) \<noteq> JNull \<and>
   imageUrl (state (run success_events)) \<noteq> None \<and>
   imageSize (state (run success_events)) = Size_4K \<and>
   analysis (state (app_step (run success_events) Reset)) = JNull \<and>
   imageUrl (state (app_step (run success_events) Reset)) = None \<and>
   error (state (app_step (run success_events) Reset)) = None \<and>
   step (state (app_step (run success_events) Reset)) = idle \<and>
   imageSize (state (app_step (run success_events) Reset)) = Size_4K"
  using reset_from_complete [of "run success_events"]
  by (simp add: success_events_def sample_analysis_def app_defs)

section \<open>The chat session\<close>

text \<open>
  \<^bold>\<open>C6\<close>. When the chat service answers with an empty text (or none), \<^verbatim>\<open>sendMessage\<close>
  returns the fallback string and does not throw.
\<close>

theorem sendMessage_fallback:
  assumes "response_text r = None \<or> response_text r = Some []"
  shows "sendMessage (Inr r) = Inr ''I couldn't generate a response.''"
  using assms by (auto simp: sendMessage_def)

theorem sendMessage_fallback_witness:
  "sendMessage (Inr \<lparr>response_text = Some []\<rparr>) = Inr ''I couldn't generate a response.''"
  using sendMessage_fallback [of "\<lparr>response_text = Some []\<rparr>"] by simp

section \<open>The image client\<close>

lemma scan_parts_first:
  "list_all (\<lambda>q. part_inlineData q = None) ps1 \<Longrightarrow> part_inlineData p = Some d \<Longrightarrow>
   scan_parts (ps1 @ p # ps2) =
     Inr (''data:image/png;base64,'' @
            (case data d of None \<Rightarrow> ''undefined'' | Some payload \<Rightarrow> payload))"
  by (induction ps1) simp_all

lemma scan_parts_none:
  "(scan_parts ps = Inl (Error ''No image generated''))
     = list_all (\<lambda>q. part_inlineData q = None) ps"
  by (induction ps) (simp_all split: option.splits)

lemma scan_parts_fails:
  "(\<exists>e. scan_parts ps = Inl e) = list_all (\<lambda>q. part_inlineData q = None) ps"
  by (induction ps) (simp_all split: option.splits)

lemma response_parts_first_candidate:
  "list_all (\<lambda>q. part_inlineData q = None) (response_parts r) =
     (\<forall>c cs ct ps. candidates r = Some (c # cs) \<and> candidate_content c = Some ct \<and>
        parts ct = Some ps \<longrightarrow> list_all (\<lambda>q. part_inlineData q = None) ps)"
  by (auto simp: response_parts_def split: option.splits list.splits)

text \<open>
  \<^bold>\<open>C7\<close>, as the code has it. The live \<^verbatim>\<open>generateDreamImage\<close> scans the parts of the first
  candidate only. For every response it returns the text \<^verbatim>\<open>data:image/png;base64,\<close>
  followed by the payload of the first of these parts that has an inline payload (by the
  text \<^verbatim>\<open>undefined\<close> if that part's \<^verbatim>\<open>data\<close> is missing); and it fails, with the error
  \<^verbatim>\<open>No image generated\<close>, exactly when the first candidate has no part with an inline
  payload, whatever the other candidates hold.
\<close>

theorem generateDreamImage_first_inline_part:
  "(candidates r = Some (c # cs) \<and> candidate_content c = Some ct \<and>
      parts ct = Some (ps1 @ p # ps2) \<and>
      list_all (\<lambda>q. part_inlineData q = None) ps1 \<and>
      part_inlineData p = Some d \<and> data d = Some payload \<longrightarrow>
        generateDreamImage (Inr r) = Inr (''data:image/png;base64,'' @ payload)) \<and>
   (candidates r = Some (c # cs) \<and> candidate_content c = Some ct \<and>
      parts ct = Some (ps1 @ p # ps2) \<and>
      list_all (\<lambda>q. part_inlineData q = None) ps1 \<and>
      part_inlineData p = Some d \<and> data d = None \<longrightarrow>
        generateDreamImage (Inr r) = Inr ''data:image/png;base64,undefined'') \<and>
   ((generateDreamImage (Inr r) = Inl (Error ''No image generated'')) =
      (\<forall>c cs ct ps. candidates r = Some (c # cs) \<and> candidate_content c = Some ct \<and>
         parts ct = Some ps \<longrightarrow> list_all (\<lambda>q. part_inlineData q = None) ps)) \<and>
   ((\<exists>e. generateDreamImage (Inr r) = Inl e) =
      (\<forall>c cs ct ps. candidates r = Some (c # cs) \<and> candidate_content c = Some ct \<and>
         parts ct = Some ps \<longrightarrow> list_all (\<lambda>q. part_inlineData q = None) ps))"
proof -
  have a: "candidates r = Some (c # cs) \<and> candidate_content c = Some ct \<and>
      parts ct = Some (ps1 @ p # ps2) \<Longrightarrow> response_parts r = ps1 @ p # ps2"
    by (simp add: response_parts_def)
  show ?thesis
    unfolding response_parts_first_candidate [symmetric]
    using a by (auto simp: generateDreamImage_def scan_parts_first scan_parts_none scan_parts_fails)
qed

theorem generateDreamImage_first_inline_part_witness:
  "generateDreamImage (Inr sample_image_response) = Inr ''data:image/png;base64,AAAA'' \<and>
   generateDreamImage (Inr \<lparr>candidates = Some []\<rparr>) = Inl (Error ''No image generated'')"
  using generateDreamImage_first_inline_part
      [of sample_image_response
          "\<lparr>candidate_content = Some
            \<lparr>parts = Some
               [\<lparr>part_text = Some ''Here is the image'', part_inlineData = None\<rparr>,
                \<lparr>part_text = None,
                  part_inlineData = Some \<lparr>data = Some ''AAAA'', mimeType = Some ''image/png''\<rparr>\<rparr>,
                \<lparr>part_text = None,
                  part_inlineData = Some \<lparr>data = Some ''BBBB'', mimeType = Some ''image/png''\<rparr>\<rparr>]\<rparr>\<rparr>"
          "[]"
          "\<lparr>parts = Some
               [\<lparr>part_text = Some ''Here is the image'', part_inlineData = None\<rparr>,
                \<lparr>part_text = None,
                  part_inlineData = Some \<lparr>data = Some ''AAAA'', mimeType = Some ''image/png''\<rparr>\<rparr>,
                \<lparr>part_text = None,
                  part_inlineData = Some \<lparr>data = Some ''BBBB'', mimeType = Some ''image/png''\<rparr>\<rparr>]\<rparr>"
          "[\<lparr>part_text = Some ''Here is the image'', part_inlineData = None\<rparr>]"
          "\<lparr>part_text = None,
            part_inlineData = Some \<lparr>data = Some ''AAAA'', mimeType = Some ''image/png''\<rparr>\<rparr>"
          "[\<lparr>part_text = None,
            part_inlineData = Some \<lparr>data = Some ''BBBB'', mimeType = Some ''image/png''\<rparr>\<rparr>]"
          "\<lparr>data = Some ''AAAA'', mimeType = Some ''image/png''\<rparr>"
          "''AAAA''"]
    generateDreamImage_first_inline_part [of "\<lparr>candidates = Some []\<rparr>"]
  by (simp add: sample_image_response_def)

text \<open>
  A response whose first candidate has only a text part and whose second candidate has
  the image: an inline part is present in the response, and the function fails.
\<close>

theorem generateDreamImage_ignores_second_candidate:
  "list_ex (\<lambda>q. part_inlineData q \<noteq> None) (parts_of_every_candidate image_in_second_candidate) \<and>
   generateDreamImage (Inr image_in_second_candidate) = Inl (Error ''No image generated'')"
  by (simp add: image_in_second_candidate_def parts_of_every_candidate_def
      generateDreamImage_def response_parts_def)

text \<open>
  The request carries the size it was given and a square aspect ratio; the other revision
  of the function never fails and returns the same address for every prompt and size.
\<close>

lemma generateDreamImage_request_fields:
  "request_imageSize (generateDreamImage_request prompt sz) = sz \<and>
   request_prompt (generateDreamImage_request prompt sz) = prompt \<and>
   request_aspectRatio (generateDreamImage_request prompt sz) = ''1:1''"
  by (simp add: generateDreamImage_request_def)

lemma generateDreamImage_stub_constant:
  "generateDreamImage_stub prompt sz = generateDreamImage_stub prompt' sz'"
  by (simp add: generateDreamImage_stub_def)

section \<open>The resolution\<close>

lemma analysis_settled_imageSize:
  "imageSize (state (analysis_settled i result a)) = imageSize (state a)"
  by (simp add: analysis_settled_def analysis_received_def processing_failed_def
      split: handler_call.splits sum.splits)

lemma image_settled_imageSize:
  "imageSize (state (image_settled i result a)) = imageSize (state a)"
  by (simp add: image_settled_def image_received_def processing_failed_def
      split: handler_call.splits sum.splits)

lemma onstop_imageSize:
  "imageSize (state (fst (snd (onstop call_handler j (a, r))))) = imageSize (state a)"
  by (simp add: onstop_def call_handler_def Let_def handleRecordingComplete_def
      recording_received_def)

text \<open>
  While \<open>isRecording\<close> holds in the mounted instance the resolution buttons are disabled,
  and no event changes \<open>imageSize\<close>.
\<close>

lemma resolution_fixed_while_recording:
  assumes "mounted sys = Some k" and "k < length (instances sys)"
    and "isRecording (instances sys ! k)"
  shows "imageSize (state (app (dream_step sys ev))) = imageSize (state (app sys))"
proof -
  have "imageSize (state (app (handle_event sys ev))) = imageSize (state (app sys))"
  proof (cases ev)
    case (Stop_event k' j)
    then show ?thesis
      using onstop_imageSize [of j "app sys" "instances sys ! k'"]
      by (auto split: prod.splits)
  next
    case (Click_size sz)
    with assms show ?thesis by (simp add: size_button_click_def)
  qed (simp_all add: app_on_instance analysis_settled_imageSize image_settled_imageSize
         reset_def split: option.splits)
  then show ?thesis by (simp add: dream_step_def app_render)
qed

text \<open>
  A new instance is mounted each time the step comes back to \<open>idle\<close>, so its buttons work
  whatever an earlier instance was doing. Here the second instance was unmounted while
  recording: its track stays live, and the third instance accepts the choice of 2K.
\<close>

lemma remounted_instance_is_fresh:
  "mounted (dream_run remount_events) = Some 2 \<and>
   \<not> isRecording (instances (dream_run remount_events) ! 2) \<and>
   isRecording (instances (dream_run remount_events) ! 1) \<and>
   stream (recorders (instances (dream_run remount_events) ! 1) ! 0) = [live] \<and>
   imageSize (state (app (dream_run remount_events))) = Size_2K"
  by (simp add: remount_events_def dream_defs app_defs audio_defs sample_analysis_def)

text \<open>
  A resolution chosen before the record button is clicked is the one given to
  \<^verbatim>\<open>generateDreamImage\<close>.
\<close>

lemma early_selection_is_requested:
  "imageSize (state (app (dream_run early_selection_events))) = Size_4K \<and>
   map image_call (calls (app (dream_run early_selection_events)))
     = [Some (Some (JString ''v''), Size_4K)]"
  by (simp add: early_selection_events_def dream_defs app_defs audio_defs sample_blob_def
      sample_analysis_def)

text \<open>
  \<^bold>\<open>C8\<close>, at the input where the code departs from it. The record button is clicked at
  resolution 1K; while \<^verbatim>\<open>getUserMedia\<close> is pending the step is \<open>idle\<close> and \<open>isRecording\<close> is
  false, so a click on 4K is accepted and \<open>imageSize\<close> becomes 4K. The \<^verbatim>\<open>onstop\<close> handler
  installed afterwards still holds the \<^verbatim>\<open>onRecordingComplete\<close> of the render in which the
  record button was clicked, whose \<^verbatim>\<open>state.imageSize\<close> is 1K, and that is the size given
  to \<^verbatim>\<open>generateDreamImage\<close>.
\<close>

theorem late_selection_is_not_requested:
  "imageSize (state (app (dream_run late_selection_events))) = Size_4K \<and>
   map image_call (calls (app (dream_run late_selection_events)))
     = [Some (Some (JString ''v''), Size_1K)]"
  by (simp add: late_selection_events_def dream_defs app_defs audio_defs sample_blob_def
      sample_analysis_def)

section \<open>The chat interface\<close>

text \<open>
  \<^bold>\<open>C9\<close>. When \<^verbatim>\<open>sendMessage\<close> throws, the rest of \<^verbatim>\<open>handleSend\<close> appends the apology as a
  message of the model to the messages of the current state, keeps every earlier
  message and the session handle, and ends the loading state.
\<close>

theorem chat_error_appends_apology:
  "messages (handleSend_settled (sendMessage (Inl e)) s) =
     messages s @
       [\<lparr>role = model,
         text = ''I'm sorry, I'm having trouble connecting to the dream realm right now.''\<rparr>] \<and>
   take (length (messages s)) (messages (handleSend_settled (sendMessage (Inl e)) s)) = messages s \<and>
   chatSessionRef (handleSend_settled (sendMessage (Inl e)) s) = chatSessionRef s \<and>
   input (handleSend_settled (sendMessage (Inl e)) s) = input s \<and>
   \<not> isLoading (handleSend_settled (sendMessage (Inl e)) s)"
  by (simp add: handleSend_settled_def sendMessage_def)

text \<open>
  A whole turn that fails: the message of the user and the apology are appended to the
  conversation in this order.
\<close>

lemma failed_turn_keeps_conversation:
  assumes "trim (input s) \<noteq> []" and "chatSessionRef s \<noteq> None" and "\<not> isLoading s"
  shows "snd (handleSend s) = Some (input s) \<and>
         messages (handleSend_settled (sendMessage (Inl e)) (fst (handleSend s))) =
           messages s @
             [\<lparr>role = user, text = input s\<rparr>,
              \<lparr>role = model,
                text = ''I'm sorry, I'm having trouble connecting to the dream realm right now.''\<rparr>] \<and>
         chatSessionRef (handleSend_settled (sendMessage (Inl e)) (fst (handleSend s)))
           = chatSessionRef s"
  using assms by (simp add: handleSend_def handleSend_settled_def sendMessage_def)

text \<open>A turn that succeeds with an empty reply shows the fallback string.\<close>

lemma empty_reply_shows_fallback:
  "messages (handleSend_settled (sendMessage (Inr \<lparr>response_text = Some []\<rparr>)) s) =
     messages s @ [\<lparr>role = model, text = ''I couldn't generate a response.''\<rparr>]"
  by (simp add: handleSend_settled_def sendMessage_def)

lemma trim_Nil: "(trim s = []) = list_all is_white_space s"
proof -
  have h: "(dropWhile is_white_space (rev (dropWhile is_white_space s)) = [])
             = (dropWhile is_white_space s = [])"
  proof (cases "dropWhile is_white_space s")
    case Nil
    show ?thesis unfolding Nil by simp
  next
    case (Cons a as)
    then have na: "\<not> is_white_space a"
      by (metis hd_dropWhile list.sel(1) list.distinct(1))
    have "a \<in> set (rev (dropWhile is_white_space s))"
      using Cons by simp
    with na have "dropWhile is_white_space (rev (dropWhile is_white_space s)) \<noteq> []"
      unfolding dropWhile_eq_Nil_conv by blast
    with Cons show ?thesis by simp
  qed
  have "(trim s = []) = (dropWhile is_white_space s = [])"
    unfolding trim_def rev_is_Nil_conv by (rule h)
  also have "\<dots> = list_all is_white_space s"
    by (simp add: dropWhile_eq_Nil_conv list_all_iff)
  finally show ?thesis .
qed

text \<open>
  \<^bold>\<open>C10\<close>. With an input that is empty or consists of white space, without a session
  handle, or while a reply is pending, \<^verbatim>\<open>handleSend\<close> returns at its first line: the state
  is unchanged (no message is appended) and \<^verbatim>\<open>sendMessage\<close> is not called.
\<close>

theorem handleSend_guard_no_op:
  assumes "list_all is_white_space (input s) \<or> chatSessionRef s = None \<or> isLoading s"
  shows "handleSend s = (s, None)"
  using assms by (auto simp: handleSend_def trim_Nil)

theorem handleSend_guard_no_op_witness:
  "list_all is_white_space (input blank_input_chat) \<and>
   input blank_input_chat \<noteq> [] \<and>
   handleSend blank_input_chat = (blank_input_chat, None) \<and>
   handleSend initial_ChatInterface = (initial_ChatInterface, None)"
  using handleSend_guard_no_op [of blank_input_chat]
    handleSend_guard_no_op [of initial_ChatInterface]
  by (simp add: blank_input_chat_def initial_ChatInterface_def is_white_space_def)

text \<open>With a session and a question in the input field the message is sent.\<close>

lemma handleSend_sends:
  "handleSend (create_session ''instruction'' (initial_ChatInterface\<lparr>input := ''Why?''\<rparr>)) =
     (\<lparr>messages = [\<lparr>role = user, text = ''Why?''\<rparr>], input = [], isLoading = True,
       chatSessionRef = Some \<lparr>systemInstruction = ''instruction''\<rparr>\<rparr>,
      Some ''Why?'')"
  by (simp add: handleSend_def create_session_def initial_ChatInterface_def trim_def
      is_white_space_def)

end
